theory Spec2Isabelle
  imports Complex_Main
begin

section \<open>Python values used by the application\<close>

text \<open>
  A Python \<open>str\<close> is modelled as a \<open>string\<close> whose characters are the code points
  0..255.  The helpers below follow \<open>str.strip()\<close>, \<open>str.lower()\<close> and \<open>int(str)\<close> on
  that range.  Exceptions are values of \<open>py_error\<close>; a computation that may raise returns
  \<open>py_error + 'a\<close>.
\<close>

datatype py_error = ValueError | IntegrityError | OverflowError

definition py_isspace :: "char \<Rightarrow> bool" where
  "py_isspace c = ((of_char c :: nat) \<in> {9, 10, 11, 12, 13, 28, 29, 30, 31, 32, 133, 160})"

definition strip :: "string \<Rightarrow> string" where
  "strip s = rev (dropWhile py_isspace (rev (dropWhile py_isspace s)))"

definition lower_char :: "char \<Rightarrow> char" where
  "lower_char c =
     (let n = (of_char c :: nat)
      in if (65 \<le> n \<and> n \<le> 90) \<or> (192 \<le> n \<and> n \<le> 222 \<and> n \<noteq> 215)
         then char_of (n + 32) else c)"

definition lower :: "string \<Rightarrow> string" where
  "lower s = map lower_char s"

definition is_digit :: "char \<Rightarrow> bool" where
  "is_digit c = (48 \<le> (of_char c :: nat) \<and> (of_char c :: nat) \<le> 57)"

definition digit_val :: "char \<Rightarrow> int" where
  "digit_val c = int (of_char c) - 48"

text \<open>
  \<open>int()\<close> skips fewer characters around the literal than \<open>str.strip()\<close> removes: the
  ASCII white space 9..13 and 32, and the two further spaces 0x85 and 0xA0 of the range,
  but not the separators 0x1C..0x1F.
\<close>

definition int_space :: "char \<Rightarrow> bool" where
  "int_space c = ((of_char c :: nat) \<in> {9, 10, 11, 12, 13, 32, 133, 160})"

text \<open>
  The digits of an integer literal as \<open>int()\<close> accepts them: one underscore may stand
  between two digits, nowhere else.  A literal of more than \<open>max_str_digits\<close> digits is
  refused (the interpreter's default limit).
\<close>

definition max_str_digits :: nat where
  "max_str_digits = 4300"

fun parse_digits :: "int \<Rightarrow> string \<Rightarrow> int option" where
  "parse_digits acc [] = Some acc"
| "parse_digits acc [c] = (if is_digit c then Some (acc * 10 + digit_val c) else None)"
| "parse_digits acc (c # d # ds) =
     (if c = CHR ''_''
      then (if is_digit d then parse_digits (acc * 10 + digit_val d) ds else None)
      else if is_digit c then parse_digits (acc * 10 + digit_val c) (d # ds)
      else None)"

definition parse_unsigned :: "string \<Rightarrow> int option" where
  "parse_unsigned s =
     (if max_str_digits < length (filter is_digit s) then None
      else (case s of
              [] \<Rightarrow> None
            | c # cs \<Rightarrow> if is_digit c then parse_digits (digit_val c) cs else None))"

text \<open>\<open>int(s)\<close> for a string \<open>s\<close>: \<open>None\<close> stands for the \<open>ValueError\<close> it raises.\<close>

definition py_int :: "string \<Rightarrow> int option" where
  "py_int s =
     (case rev (dropWhile int_space (rev (dropWhile int_space s))) of
        [] \<Rightarrow> None
      | c # cs \<Rightarrow>
          if c = CHR ''-'' then map_option uminus (parse_unsigned cs)
          else if c = CHR ''+'' then parse_unsigned cs
          else parse_unsigned (c # cs))"

text \<open>Truthiness of a string, and \<open>x or y\<close> on strings.\<close>

definition truthy :: "string \<Rightarrow> bool" where
  "truthy s = (s \<noteq> [])"

definition newline :: string where
  "newline = [CHR 0x0A]"

section \<open>The process environment and the transports\<close>

text \<open>
  \<open>os.environ\<close> is a map from names to strings.  The SMTP and Twilio libraries are not
  part of the application: a transport is a function from the submission to the text of
  the exception it raises, \<open>None\<close> when the submission goes through.  \<open>twilio = None\<close>
  stands for a failing \<open>from twilio.rest import Client\<close>.
\<close>

record smtp_call =
  ssl :: bool
  starttls :: bool
  server :: string
  port :: int
  login_user :: string
  login_password :: string
  mail_from :: string
  mail_to :: string
  mail_subject :: string
  mail_body :: string

record sms_call =
  account_sid :: string
  auth_token :: string
  sms_from :: string
  sms_to :: string
  sms_body :: string

record transports =
  environ :: "string \<rightharpoonup> string"
  smtp :: "smtp_call \<Rightarrow> string option"
  twilio :: "(sms_call \<Rightarrow> string option) option"

text \<open>\<open>os.environ.get(k)\<close> followed by a truth test: unset and empty are both falsy.\<close>

definition env_missing :: "(string \<rightharpoonup> string) \<Rightarrow> string \<Rightarrow> bool" where
  "env_missing env k = (case env k of None \<Rightarrow> True | Some v \<Rightarrow> \<not> truthy v)"

definition env_get :: "(string \<rightharpoonup> string) \<Rightarrow> string \<Rightarrow> string \<Rightarrow> string" where
  "env_get env k d = (case env k of None \<Rightarrow> d | Some v \<Rightarrow> v)"

text \<open>\<open>int(os.environ.get('SMTP_PORT', 587))\<close>.\<close>

definition smtp_port :: "(string \<rightharpoonup> string) \<Rightarrow> py_error + int" where
  "smtp_port env =
     (case env ''SMTP_PORT'' of
        None \<Rightarrow> Inr 587
      | Some v \<Rightarrow> (case py_int v of None \<Rightarrow> Inl ValueError | Some n \<Rightarrow> Inr n))"

definition would_be_email :: "string \<Rightarrow> string \<Rightarrow> string \<Rightarrow> string" where
  "would_be_email to_address subject body =
     ''To: '' @ to_address @ newline @ ''Subject: '' @ subject @ newline @ newline @ body"

definition would_be_sms :: "string \<Rightarrow> string \<Rightarrow> string" where
  "would_be_sms to_number body = ''To: '' @ to_number @ newline @ newline @ body"

definition email_submission ::
  "(string \<rightharpoonup> string) \<Rightarrow> int \<Rightarrow> string \<Rightarrow> string \<Rightarrow> string \<Rightarrow> smtp_call" where
  "email_submission env p to_address subject body =
     (let use_ssl_env = lower (env_get env ''SMTP_USE_SSL'' '''');
          use_tls_env = lower (env_get env ''SMTP_USE_TLS'' ''true'');
          use_ssl = (use_ssl_env \<in> set [''1'', ''true'', ''yes''] \<or> p = 465);
          use_tls = (use_tls_env \<notin> set [''0'', ''false'', ''no''] \<and> \<not> use_ssl)
      in \<lparr> ssl = use_ssl, starttls = use_tls,
           server = env_get env ''SMTP_SERVER'' '''', port = p,
           login_user = env_get env ''SMTP_USERNAME'' '''',
           login_password = env_get env ''SMTP_PASSWORD'' '''',
           mail_from = env_get env ''SMTP_USERNAME'' '''',
           mail_to = to_address, mail_subject = subject, mail_body = body \<rparr>)"

text \<open>
  \<open>send_email\<close> and \<open>send_sms\<close> return their result together with the lines they print.
\<close>

definition send_email ::
  "transports \<Rightarrow> string \<Rightarrow> string \<Rightarrow> string \<Rightarrow> (py_error + bool) \<times> string list" where
  "send_email tr to_address subject body =
     (case smtp_port (environ tr) of
        Inl e \<Rightarrow> (Inl e, [])
      | Inr p \<Rightarrow>
          if env_missing (environ tr) ''SMTP_SERVER'' \<or> env_missing (environ tr) ''SMTP_USERNAME''
               \<or> env_missing (environ tr) ''SMTP_PASSWORD''
          then (Inr False,
                [''Email not sent: missing SMTP configuration'',
                 would_be_email to_address subject body])
          else (case smtp tr (email_submission (environ tr) p to_address subject body) of
                  None \<Rightarrow> (Inr True, [])
                | Some e \<Rightarrow> (Inr False, [''Email sending failed: '' @ e])))"

definition send_sms ::
  "transports \<Rightarrow> string \<Rightarrow> string \<Rightarrow> (py_error + bool) \<times> string list" where
  "send_sms tr to_number body =
     (if env_missing (environ tr) ''TWILIO_ACCOUNT_SID'' \<or> env_missing (environ tr) ''TWILIO_AUTH_TOKEN''
          \<or> env_missing (environ tr) ''TWILIO_PHONE_NUMBER''
      then (Inr False,
            [''SMS not sent: missing Twilio configuration'', would_be_sms to_number body])
      else (case twilio tr of
              None \<Rightarrow>
                (Inr False, [''Twilio library not installed. Install via `pip install twilio`''])
            | Some client \<Rightarrow>
                (case client \<lparr> account_sid = env_get (environ tr) ''TWILIO_ACCOUNT_SID'' '''',
                               auth_token = env_get (environ tr) ''TWILIO_AUTH_TOKEN'' '''',
                               sms_from = env_get (environ tr) ''TWILIO_PHONE_NUMBER'' '''',
                               sms_to = to_number, sms_body = body \<rparr> of
                   None \<Rightarrow> (Inr True, [])
                 | Some e \<Rightarrow> (Inr False, [''SMS sending failed: '' @ e]))))"

section \<open>The persistence layer\<close>

text \<open>
  A \<open>datetime\<close> is a naive timestamp counted in microseconds, a \<open>timedelta\<close> a number
  of microseconds; the range of years Python's \<open>datetime\<close> is confined to is not modelled.
  Each handler takes the reading of the clock at its request.  Python floats are only parsed and stored by the application, so the
  type of floats is a type parameter \<open>'f\<close> and \<open>float(str)\<close> is a parameter of the
  handlers, as are \<open>datetime.fromisoformat\<close> and werkzeug's password hashing.
\<close>

type_synonym datetime = int
type_synonym timedelta = int

definition days :: "int \<Rightarrow> timedelta" where
  "days n = n * 86400000000"

definition hours :: "int \<Rightarrow> timedelta" where
  "hours n = n * 3600000000"

record 'f Contact =
  c_id :: nat
  first_name :: string
  last_name :: string
  email :: string
  phone :: "string option"
  company :: "string option"
  address :: "string option"
  c_notes :: "string option"
  c_created_at :: datetime
  potential_spend :: 'f
  accepted_spend :: 'f
  billed_amount :: 'f
  received_amount :: 'f
  rating :: int

record Message =
  m_id :: nat
  m_contact_id :: nat
  channel :: string
  m_subject :: "string option"
  m_body :: string
  m_sent_at :: datetime

record User =
  u_id :: nat
  username :: string
  password_hash :: string
  role :: string
  u_created_at :: datetime

record ScheduledEmail =
  s_id :: nat
  s_contact_id :: nat
  s_subject :: string
  s_body :: string
  start_at :: datetime
  end_at :: "datetime option"
  recurring :: bool
  s_sent_at :: "datetime option"

record 'f library =
  float_of :: "string \<Rightarrow> 'f option"
  fromisoformat :: "string \<Rightarrow> datetime option"
  generate_password_hash :: "string \<Rightarrow> string"

text \<open>
  The state a request or a timer callback acts on: the four tables in row order, and
  what has left the process so far (console lines, the calls made to the two senders,
  the summary files written, and the timers armed, each with its delay and its entry).
\<close>

datatype sender_call = SendEmail string string string | SendSms string string

record 'f world =
  contacts :: "'f Contact list"
  messages :: "Message list"
  users :: "User list"
  scheduled_emails :: "ScheduledEmail list"
  console :: "string list"
  calls :: "sender_call list"
  summaries :: "(nat \<times> datetime) list"
  timers :: "(timedelta \<times> ScheduledEmail) list"

text \<open>An integer primary key: one more than the largest key of the table.\<close>

definition next_id :: "nat list \<Rightarrow> nat" where
  "next_id ids = Suc (fold max ids 0)"

definition get_contact :: "'f Contact list \<Rightarrow> nat \<Rightarrow> 'f Contact option" where
  "get_contact cs i = find (\<lambda>c. c_id c = i) cs"

text \<open>
  \<open>db.session.add(contact); db.session.commit()\<close> and the commit of an edited row, on
  the default SQLite database.  The column \<open>rating\<close> is an \<open>Integer\<close>: binding a value
  outside the signed 64-bit range raises \<open>OverflowError\<close> before the statement runs.
  The column \<open>email\<close> is declared \<open>unique=True\<close>: a statement that would store an email
  twice raises \<open>IntegrityError\<close>.  A commit that raises stores nothing.
\<close>

definition sqlite_integer :: "int \<Rightarrow> bool" where
  "sqlite_integer n = (- (2 ^ 63) \<le> n \<and> n < 2 ^ 63)"

definition insert_contact ::
  "'f Contact \<Rightarrow> 'f world \<Rightarrow> py_error + ('f Contact \<times> 'f world)" where
  "insert_contact c w =
     (if \<not> sqlite_integer (rating c) then Inl OverflowError
      else if email c \<in> set (map email (contacts w)) then Inl IntegrityError
      else (let c' = c\<lparr>c_id := next_id (map c_id (contacts w))\<rparr>
            in Inr (c', w\<lparr>contacts := contacts w @ [c']\<rparr>)))"

definition update_contact ::
  "'f Contact \<Rightarrow> 'f world \<Rightarrow> py_error + ('f Contact \<times> 'f world)" where
  "update_contact c w =
     (if \<not> sqlite_integer (rating c) then Inl OverflowError
      else if email c \<in> set (map email (filter (\<lambda>d. c_id d \<noteq> c_id c) (contacts w)))
      then Inl IntegrityError
      else Inr (c, w\<lparr>contacts := map (\<lambda>d. if c_id d = c_id c then c else d) (contacts w)\<rparr>))"

definition generate_contact_summary :: "datetime \<Rightarrow> 'f Contact \<Rightarrow> 'f world \<Rightarrow> 'f world" where
  "generate_contact_summary now c w = w\<lparr>summaries := summaries w @ [(c_id c, now)]\<rparr>"

section \<open>Application start\<close>

text \<open>
  \<open>create_app\<close>, after \<open>db.create_all()\<close>: a default master user is added when the
  user table has no row.
\<close>

definition create_app :: "'f library \<Rightarrow> datetime \<Rightarrow> 'f world \<Rightarrow> 'f world" where
  "create_app lib now w =
     (if users w = []
      then w\<lparr>users := [\<lparr> u_id = next_id [], username = ''admin'',
                          password_hash = generate_password_hash lib ''admin123'',
                          role = ''master'', u_created_at = now \<rparr>]\<rparr>
      else w)"

section \<open>Requests, responses and the access gate\<close>

datatype http_method = GET | POST

record request =
  req_method :: http_method
  form :: "string \<rightharpoonup> string"

datatype endpoint = EP_index | EP_list_contacts | EP_login | EP_view_contact nat

datatype response = Redirect endpoint | Render string | NotFound

type_synonym flash = "string \<times> string"

text \<open>
  A handler returns the response or the exception that escapes it, the messages it
  flashed, and the state it leaves.
\<close>

type_synonym 'f result = "(py_error + response) \<times> flash list \<times> 'f world"

definition form_get :: "(string \<rightharpoonup> string) \<Rightarrow> string \<Rightarrow> string \<Rightarrow> string" where
  "form_get f k d = (case f k of None \<Rightarrow> d | Some v \<Rightarrow> v)"

definition index :: response where
  "index = Redirect EP_list_contacts"

definition login_required ::
  "User option \<Rightarrow> ('f world \<Rightarrow> 'f result) \<Rightarrow> 'f world \<Rightarrow> 'f result" where
  "login_required g view w =
     (case g of None \<Rightarrow> (Inr (Redirect EP_login), [], w) | Some u \<Rightarrow> view w)"

definition role_required ::
  "string list \<Rightarrow> User option \<Rightarrow> ('f world \<Rightarrow> 'f result) \<Rightarrow> 'f world \<Rightarrow> 'f result" where
  "role_required roles g view w =
     (case g of
        None \<Rightarrow> (Inr (Redirect EP_login), [], w)
      | Some u \<Rightarrow>
          if lower (role u) \<notin> set (map lower roles)
          then (Inr (Redirect EP_index),
                [(''You do not have permission to access this page.'', ''danger'')], w)
          else view w)"

section \<open>Contact routes\<close>

text \<open>
  Numeric form fields.  On creation an empty field counts as zero and a \<open>ValueError\<close>
  of the conversion is replaced by zero; on edit the field falls back to the contact's
  prior value, and a \<open>ValueError\<close> skips the assignment.
\<close>

definition float_or_zero :: "('f::zero) library \<Rightarrow> (string \<rightharpoonup> string) \<Rightarrow> string \<Rightarrow> 'f" where
  "float_or_zero lib f k =
     (let v = form_get f k ''0''
      in if truthy v then (case float_of lib v of None \<Rightarrow> 0 | Some x \<Rightarrow> x) else 0)"

definition int_or_zero :: "(string \<rightharpoonup> string) \<Rightarrow> string \<Rightarrow> int" where
  "int_or_zero f k =
     (let v = form_get f k ''0''
      in if truthy v then (case py_int v of None \<Rightarrow> 0 | Some n \<Rightarrow> n) else 0)"

definition float_or_prior :: "'f library \<Rightarrow> (string \<rightharpoonup> string) \<Rightarrow> string \<Rightarrow> 'f \<Rightarrow> 'f" where
  "float_or_prior lib f k prior =
     (case f k of
        None \<Rightarrow> prior
      | Some v \<Rightarrow>
          if truthy v then (case float_of lib v of None \<Rightarrow> prior | Some x \<Rightarrow> x) else prior)"

definition int_or_prior :: "(string \<rightharpoonup> string) \<Rightarrow> string \<Rightarrow> int \<Rightarrow> int" where
  "int_or_prior f k prior =
     (case f k of
        None \<Rightarrow> prior
      | Some v \<Rightarrow> if truthy v then (case py_int v of None \<Rightarrow> prior | Some n \<Rightarrow> n) else prior)"

text \<open>
  The body of \<open>create_contact\<close>.  The new row carries the key 0 until the insert assigns
  one.
\<close>

definition create_contact_view ::
  "('f::zero) library \<Rightarrow> datetime \<Rightarrow> request \<Rightarrow> 'f world \<Rightarrow> 'f result" where
  "create_contact_view lib now req w =
     (if req_method req = POST then
        (let first = strip (form_get (form req) ''first_name'' '''');
             lastn = strip (form_get (form req) ''last_name'' '''');
             em = strip (form_get (form req) ''email'' '''')
         in if \<not> truthy first \<or> \<not> truthy lastn \<or> \<not> truthy em
            then (Inr (Render ''contact_form.html''),
                  [(''First name, last name and email are required.'', ''danger'')], w)
            else if find (\<lambda>c. email c = em) (contacts w) \<noteq> None
            then (Inr (Render ''contact_form.html''),
                  [(''A contact with that email already exists.'', ''warning'')], w)
            else
              (case insert_contact
                      \<lparr> c_id = 0, first_name = first, last_name = lastn, email = em,
                        phone = Some (strip (form_get (form req) ''phone'' '''')),
                        company = Some (strip (form_get (form req) ''company'' '''')),
                        address = Some (strip (form_get (form req) ''address'' '''')),
                        c_notes = Some (strip (form_get (form req) ''notes'' '''')),
                        c_created_at = now,
                        potential_spend = float_or_zero lib (form req) ''potential_spend'',
                        accepted_spend = float_or_zero lib (form req) ''accepted_spend'',
                        billed_amount = float_or_zero lib (form req) ''billed_amount'',
                        received_amount = float_or_zero lib (form req) ''received_amount'',
                        rating = int_or_zero (form req) ''rating'' \<rparr> w of
                 Inl e \<Rightarrow> (Inl e, [], w)
               | Inr (c, w') \<Rightarrow>
                   (Inr (Redirect EP_list_contacts),
                    [(''Contact created successfully!'', ''success'')],
                    generate_contact_summary now c w')))
      else (Inr (Render ''contact_form.html''), [], w))"

definition create_contact ::
  "('f::zero) library \<Rightarrow> datetime \<Rightarrow> User option \<Rightarrow> request \<Rightarrow> 'f world \<Rightarrow> 'f result" where
  "create_contact lib now g req =
     login_required g
       (role_required [''master'', ''management''] g (create_contact_view lib now req))"

definition edit_contact_view ::
  "'f library \<Rightarrow> datetime \<Rightarrow> nat \<Rightarrow> request \<Rightarrow> 'f world \<Rightarrow> 'f result" where
  "edit_contact_view lib now contact_id req w =
     (case get_contact (contacts w) contact_id of
        None \<Rightarrow> (Inr NotFound, [], w)
      | Some contact \<Rightarrow>
          if req_method req = POST then
            (case update_contact
                    (contact
                       \<lparr> first_name := strip (form_get (form req) ''first_name'' ''''),
                         last_name := strip (form_get (form req) ''last_name'' ''''),
                         email := strip (form_get (form req) ''email'' ''''),
                         phone := Some (strip (form_get (form req) ''phone'' '''')),
                         company := Some (strip (form_get (form req) ''company'' '''')),
                         address := Some (strip (form_get (form req) ''address'' '''')),
                         c_notes := Some (strip (form_get (form req) ''notes'' '''')),
                         potential_spend :=
                           float_or_prior lib (form req) ''potential_spend'' (potential_spend contact),
                         accepted_spend :=
                           float_or_prior lib (form req) ''accepted_spend'' (accepted_spend contact),
                         billed_amount :=
                           float_or_prior lib (form req) ''billed_amount'' (billed_amount contact),
                         received_amount :=
                           float_or_prior lib (form req) ''received_amount'' (received_amount contact),
                         rating := int_or_prior (form req) ''rating'' (rating contact) \<rparr>) w of
               Inl e \<Rightarrow> (Inl e, [], w)
             | Inr (c, w') \<Rightarrow>
                 (Inr (Redirect (EP_view_contact (c_id c))),
                  [(''Contact updated successfully!'', ''success'')],
                  generate_contact_summary now c w'))
          else (Inr (Render ''contact_form.html''), [], w))"

definition edit_contact ::
  "'f library \<Rightarrow> datetime \<Rightarrow> User option \<Rightarrow> nat \<Rightarrow> request \<Rightarrow> 'f world \<Rightarrow> 'f result" where
  "edit_contact lib now g contact_id req =
     login_required g
       (role_required [''master'', ''management''] g (edit_contact_view lib now contact_id req))"

section \<open>The deferred-send scheduler\<close>

text \<open>
  \<open>schedule_email_job\<close> arms a \<open>threading.Timer\<close> whose callback is
  \<open>_send_and_reschedule\<close>; its value here is the delay of that timer.  The callback
  works on the entry object its closure holds: it reads the Contact table, calls
  \<open>send_email\<close>, and re-arms itself for a recurring entry.  It reads the clock twice,
  for \<open>sent_at\<close> and for the new delay.  Its value is the exception that ends it or the
  entry it leaves with the delay of the timer it armed (if any), then the lines printed
  and the sender calls made.
\<close>

definition schedule_email_job :: "datetime \<Rightarrow> ScheduledEmail \<Rightarrow> timedelta" where
  "schedule_email_job now scheduled =
     (let delay = start_at scheduled - now in if delay < 0 then 0 else delay)"

definition reschedule :: "datetime \<Rightarrow> ScheduledEmail \<Rightarrow> ScheduledEmail \<times> timedelta option" where
  "reschedule now scheduled =
     (if recurring scheduled then
        (let next_time = start_at scheduled + days 1
         in if (case end_at scheduled of None \<Rightarrow> True | Some e \<Rightarrow> next_time \<le> e)
            then (scheduled\<lparr>start_at := next_time\<rparr>, Some (max (next_time - now) 0))
            else (scheduled, None))
      else (scheduled, None))"

definition send_and_reschedule ::
  "transports \<Rightarrow> datetime \<Rightarrow> datetime \<Rightarrow> 'f Contact list \<Rightarrow> ScheduledEmail \<Rightarrow>
     (py_error + ScheduledEmail \<times> timedelta option) \<times> string list \<times> sender_call list" where
  "send_and_reschedule tr now now' cs scheduled =
     (case get_contact cs (s_contact_id scheduled) of
        None \<Rightarrow> (Inr (reschedule now' scheduled), [], [])
      | Some contact \<Rightarrow>
          (case send_email tr (email contact) (s_subject scheduled) (s_body scheduled) of
             (Inl e, out) \<Rightarrow>
               (Inl e, out, [SendEmail (email contact) (s_subject scheduled) (s_body scheduled)])
           | (Inr success, out) \<Rightarrow>
               (Inr (reschedule now' (scheduled\<lparr>s_sent_at := Some now\<rparr>)), out,
                [SendEmail (email contact) (s_subject scheduled) (s_body scheduled)])))"

text \<open>
  The life of one entry under an exact timer: a timer armed at time \<open>t\<close> with delay \<open>d\<close>
  runs the callback at \<open>t + d\<close>, and the callback takes no time.  The list argument
  gives the Contact table each successive run of the callback finds, so its length
  bounds the runs that are followed; the result lists each run with its time.
\<close>

fun run_timer ::
  "transports \<Rightarrow> datetime \<Rightarrow> ScheduledEmail \<Rightarrow> 'f Contact list list \<Rightarrow>
     (datetime \<times> (py_error + ScheduledEmail \<times> timedelta option) \<times> string list \<times> sender_call list) list"
  where
  "run_timer tr t scheduled [] = []"
| "run_timer tr t scheduled (cs # css) =
     (let r = send_and_reschedule tr t t cs scheduled
      in (t, r) #
         (case fst r of
            Inr (scheduled', Some d) \<Rightarrow> run_timer tr (t + d) scheduled' css
          | _ \<Rightarrow> []))"

definition scheduler ::
  "transports \<Rightarrow> datetime \<Rightarrow> ScheduledEmail \<Rightarrow> 'f Contact list list \<Rightarrow>
     (datetime \<times> (py_error + ScheduledEmail \<times> timedelta option) \<times> string list \<times> sender_call list) list"
  where
  "scheduler tr now scheduled css =
     run_timer tr (now + schedule_email_job now scheduled) scheduled css"

section \<open>The message route\<close>

definition invoke ::
  "transports \<Rightarrow> sender_call \<Rightarrow> 'f world \<Rightarrow> (py_error + bool) \<times> 'f world" where
  "invoke tr c w =
     (case (case c of
              SendEmail to_address subject body \<Rightarrow> send_email tr to_address subject body
            | SendSms to_number body \<Rightarrow> send_sms tr to_number body) of
        (r, out) \<Rightarrow> (r, w\<lparr>console := console w @ out, calls := calls w @ [c]\<rparr>))"

definition phone_or_empty :: "'f Contact \<Rightarrow> string" where
  "phone_or_empty contact = (case phone contact of None \<Rightarrow> '''' | Some p \<Rightarrow> p)"

definition send_message_view ::
  "'f library \<Rightarrow> transports \<Rightarrow> datetime \<Rightarrow> nat \<Rightarrow> request \<Rightarrow> 'f world \<Rightarrow> 'f result" where
  "send_message_view lib tr now contact_id req w =
     (case get_contact (contacts w) contact_id of
        None \<Rightarrow> (Inr NotFound, [], w)
      | Some contact \<Rightarrow>
          if req_method req = POST then
            (let chan = form req ''channel'';
                 subject = strip (form_get (form req) ''subject'' '''');
                 body = strip (form_get (form req) ''body'' '''');
                 is_test = (form req ''send_test'' = Some ''1'');
                 start_at_str = form_get (form req) ''start_at'' '''';
                 end_at_str = form_get (form req) ''end_at'' '''';
                 recur = (form_get (form req) ''recurring'' '''' = ''on'')
             in if (chan \<noteq> Some ''email'' \<and> chan \<noteq> Some ''sms'') \<or> \<not> truthy body
                then (Inr (Render ''message_form.html''),
                      [(''Please choose a valid channel and provide a message body.'', ''danger'')], w)
                else if is_test then
                  (if chan = Some ''email'' \<and> \<not> truthy subject
                   then (Inr (Render ''message_form.html''),
                         [(''A subject line is required for test emails.'', ''danger'')], w)
                   else
                     (case invoke tr (if chan = Some ''email''
                                      then SendEmail (email contact) subject body
                                      else SendSms (phone_or_empty contact) body) w of
                        (Inl e, w') \<Rightarrow> (Inl e, [], w')
                      | (Inr sent, w') \<Rightarrow>
                          (Inr (Redirect (EP_view_contact (c_id contact))),
                           [if sent then (''Test message sent successfully!'', ''success'')
                            else (''Test message could not be sent.'', ''warning'')], w')))
                else if truthy start_at_str \<and> chan = Some ''email'' then
                  (case fromisoformat lib start_at_str of
                     None \<Rightarrow>
                       (Inr (Render ''message_form.html''),
                        [(''Invalid start date/time format.'', ''danger'')], w)
                   | Some start \<Rightarrow>
                       if truthy end_at_str \<and> fromisoformat lib end_at_str = None
                       then (Inr (Render ''message_form.html''),
                             [(''Invalid end date/time format.'', ''danger'')], w)
                       else
                         (let scheduled =
                                \<lparr> s_id = next_id (map s_id (scheduled_emails w)),
                                  s_contact_id = c_id contact,
                                  s_subject = (if truthy subject then subject else ''''),
                                  s_body = body,
                                  start_at = start,
                                  end_at = (if truthy end_at_str then fromisoformat lib end_at_str
                                            else None),
                                  recurring = recur,
                                  s_sent_at = None \<rparr>
                          in (Inr (Redirect (EP_view_contact (c_id contact))),
                              [(''Email scheduled successfully.'', ''success'')],
                              w\<lparr>scheduled_emails := scheduled_emails w @ [scheduled],
                                timers := timers w @ [(schedule_email_job now scheduled, scheduled)]\<rparr>)))
                else
                  (if chan = Some ''email'' \<and> \<not> truthy subject
                   then (Inr (Render ''message_form.html''),
                         [(''A subject line is required when sending an email.'', ''danger'')], w)
                   else
                     (case invoke tr (if chan = Some ''email''
                                      then SendEmail (email contact) subject body
                                      else SendSms (phone_or_empty contact) body) w of
                        (Inl e, w') \<Rightarrow> (Inl e, [], w')
                      | (Inr success, w') \<Rightarrow>
                          if success
                          then (Inr (Redirect (EP_view_contact (c_id contact))),
                                [(''Message sent successfully!'', ''success'')],
                                w'\<lparr>messages := messages w' @
                                     [\<lparr> m_id = next_id (map m_id (messages w')),
                                        m_contact_id = c_id contact,
                                        channel = (if chan = Some ''email'' then ''email'' else ''sms''),
                                        m_subject = (if chan = Some ''email'' then Some subject else None),
                                        m_body = body,
                                        m_sent_at = now \<rparr>]\<rparr>)
                          else (Inr (Redirect (EP_view_contact (c_id contact))),
                                [(''Message could not be sent. Check server logs for details.'',
                                  ''warning'')], w'))))
          else (Inr (Render ''message_form.html''), [], w))"

definition send_message_route ::
  "'f library \<Rightarrow> transports \<Rightarrow> datetime \<Rightarrow> User option \<Rightarrow> nat \<Rightarrow> request \<Rightarrow> 'f world \<Rightarrow> 'f result" where
  "send_message_route lib tr now g contact_id req =
     login_required g (send_message_view lib tr now contact_id req)"

section \<open>Conditions used by the theorems\<close>

text \<open>
  \<open>port_configured\<close> says that \<open>SMTP_PORT\<close> is unset or converts to an integer;
  \<open>may_edit_contacts\<close> is the test of \<open>role_required('master', 'management')\<close>;
  \<open>missing_required\<close> and \<open>email_taken\<close> are the two validations of contact forms, the
  second as the unique column sees it on an edit of contact \<open>i\<close>; \<open>unparseable_float\<close>
  and \<open>unparseable_int\<close> say that a field was submitted and its conversion raises;
  \<open>edited\<close> is the contact as \<open>edit_contact\<close> assigns its fields from the form.
\<close>

definition port_configured :: "(string \<rightharpoonup> string) \<Rightarrow> bool" where
  "port_configured env = (case env ''SMTP_PORT'' of None \<Rightarrow> True | Some v \<Rightarrow> py_int v \<noteq> None)"

definition smtp_unconfigured :: "(string \<rightharpoonup> string) \<Rightarrow> bool" where
  "smtp_unconfigured env =
     (env_missing env ''SMTP_SERVER'' \<or> env_missing env ''SMTP_USERNAME'' \<or> env_missing env ''SMTP_PASSWORD'')"

definition twilio_unconfigured :: "(string \<rightharpoonup> string) \<Rightarrow> bool" where
  "twilio_unconfigured env =
     (env_missing env ''TWILIO_ACCOUNT_SID'' \<or> env_missing env ''TWILIO_AUTH_TOKEN''
        \<or> env_missing env ''TWILIO_PHONE_NUMBER'')"

definition may_edit_contacts :: "User \<Rightarrow> bool" where
  "may_edit_contacts u = (lower (role u) = ''master'' \<or> lower (role u) = ''management'')"

definition missing_required :: "request \<Rightarrow> bool" where
  "missing_required req =
     (strip (form_get (form req) ''first_name'' '''') = []
      \<or> strip (form_get (form req) ''last_name'' '''') = []
      \<or> strip (form_get (form req) ''email'' '''') = [])"

definition email_taken :: "'f Contact list \<Rightarrow> nat \<Rightarrow> string \<Rightarrow> bool" where
  "email_taken cs i e = (e \<in> set (map email (filter (\<lambda>d. c_id d \<noteq> i) cs)))"

definition unparseable_float :: "'f library \<Rightarrow> (string \<rightharpoonup> string) \<Rightarrow> string \<Rightarrow> bool" where
  "unparseable_float lib f k = (case f k of None \<Rightarrow> False | Some v \<Rightarrow> float_of lib v = None)"


definition edited :: "'f library \<Rightarrow> request \<Rightarrow> 'f Contact \<Rightarrow> 'f Contact" where
  "edited lib req contact =
     contact
       \<lparr> first_name := strip (form_get (form req) ''first_name'' ''''),
         last_name := strip (form_get (form req) ''last_name'' ''''),
         email := strip (form_get (form req) ''email'' ''''),
         phone := Some (strip (form_get (form req) ''phone'' '''')),
         company := Some (strip (form_get (form req) ''company'' '''')),
         address := Some (strip (form_get (form req) ''address'' '''')),
         c_notes := Some (strip (form_get (form req) ''notes'' '''')),
         potential_spend :=
           float_or_prior lib (form req) ''potential_spend'' (potential_spend contact),
         accepted_spend :=
           float_or_prior lib (form req) ''accepted_spend'' (accepted_spend contact),
         billed_amount :=
           float_or_prior lib (form req) ''billed_amount'' (billed_amount contact),
         received_amount :=
           float_or_prior lib (form req) ''received_amount'' (received_amount contact),
         rating := int_or_prior (form req) ''rating'' (rating contact) \<rparr>"

section \<open>Example inputs\<close>

text \<open>
  Inputs for the closed instances below.  The example library stands for the library
  functions on the strings the examples use: its \<open>float_of\<close> accepts integer literals
  only and its \<open>fromisoformat\<close> knows one timestamp.
\<close>

definition no_transports :: transports where
  "no_transports = \<lparr> environ = Map.empty, smtp = (\<lambda>_. None), twilio = None \<rparr>"

definition working_smtp :: transports where
  "working_smtp =
     \<lparr> environ = [''SMTP_SERVER'' \<mapsto> ''mail.example.com'', ''SMTP_USERNAME'' \<mapsto> ''crm'',
                  ''SMTP_PASSWORD'' \<mapsto> ''secret''],
       smtp = (\<lambda>_. None), twilio = None \<rparr>"

definition refusing_smtp :: transports where
  "refusing_smtp =
     \<lparr> environ = [''SMTP_SERVER'' \<mapsto> ''mail.example.com'', ''SMTP_USERNAME'' \<mapsto> ''crm'',
                  ''SMTP_PASSWORD'' \<mapsto> ''secret''],
       smtp = (\<lambda>_. Some ''Connection refused''), twilio = None \<rparr>"

definition bad_port :: transports where
  "bad_port = \<lparr> environ = [''SMTP_PORT'' \<mapsto> ''abc''], smtp = (\<lambda>_. None), twilio = None \<rparr>"

definition example_library :: "real library" where
  "example_library =
     \<lparr> float_of = (\<lambda>s. map_option of_int (py_int s)),
       fromisoformat = (\<lambda>s. if s = ''2030-01-01T09:00'' then Some 1893488400000000 else None),
       generate_password_hash = (\<lambda>p. ''hash:'' @ p) \<rparr>"

definition ann :: "real Contact" where
  "ann = \<lparr> c_id = 1, first_name = ''Ann'', last_name = ''Lee'', email = ''ann@example.com'',
           phone = Some ''+15550100'', company = Some ''Acme'', address = Some '''',
           c_notes = Some '''', c_created_at = 0, potential_spend = 100, accepted_spend = 50,
           billed_amount = 25, received_amount = 10, rating = 7 \<rparr>"

definition bob :: "real Contact" where
  "bob = \<lparr> c_id = 2, first_name = ''Bob'', last_name = ''Ray'', email = ''bob@example.com'',
           phone = None, company = Some '''', address = Some '''',
           c_notes = Some '''', c_created_at = 0, potential_spend = 0, accepted_spend = 0,
           billed_amount = 0, received_amount = 0, rating = 0 \<rparr>"

definition admin :: User where
  "admin = \<lparr> u_id = 1, username = ''admin'', password_hash = ''hash:admin123'',
             role = ''master'', u_created_at = 0 \<rparr>"

definition eve :: User where
  "eve = \<lparr> u_id = 2, username = ''eve'', password_hash = ''hash:pw'',
           role = ''Engineer'', u_created_at = 0 \<rparr>"

definition example_world :: "real world" where
  "example_world =
     \<lparr> contacts = [ann, bob], messages = [], users = [admin, eve], scheduled_emails = [],
       console = [], calls = [], summaries = [], timers = [] \<rparr>"

definition fresh_world :: "real world" where
  "fresh_world =
     \<lparr> contacts = [], messages = [], users = [], scheduled_emails = [],
       console = [], calls = [], summaries = [], timers = [] \<rparr>"

definition new_contact_request :: request where
  "new_contact_request =
     \<lparr> req_method = POST,
       form = [''first_name'' \<mapsto> ''Cy'', ''last_name'' \<mapsto> ''Young'',
               ''email'' \<mapsto> ''cy@example.com''] \<rparr>"

definition duplicate_contact_request :: request where
  "duplicate_contact_request =
     \<lparr> req_method = POST,
       form = [''first_name'' \<mapsto> ''Anna'', ''last_name'' \<mapsto> ''Lee'',
               ''email'' \<mapsto> '' ann@example.com ''] \<rparr>"

definition refusing_twilio :: transports where
  "refusing_twilio =
     \<lparr> environ = [''TWILIO_ACCOUNT_SID'' \<mapsto> ''AC0'', ''TWILIO_AUTH_TOKEN'' \<mapsto> ''token'',
                  ''TWILIO_PHONE_NUMBER'' \<mapsto> ''+15550199''],
       smtp = (\<lambda>_. None), twilio = Some (\<lambda>_. Some ''Unable to create record'') \<rparr>"


definition taken_email_request :: request where
  "taken_email_request =
     \<lparr> req_method = POST,
       form = [''first_name'' \<mapsto> ''Bob'', ''last_name'' \<mapsto> ''Ray'',
               ''email'' \<mapsto> ''ann@example.com''] \<rparr>"

definition no_subject_request :: request where
  "no_subject_request =
     \<lparr> req_method = POST,
       form = [''channel'' \<mapsto> ''email'', ''subject'' \<mapsto> ''  '', ''body'' \<mapsto> ''Hello''] \<rparr>"

definition sms_request :: request where
  "sms_request =
     \<lparr> req_method = POST,
       form = [''channel'' \<mapsto> ''sms'', ''body'' \<mapsto> ''Hello''] \<rparr>"

definition schedule_request :: request where
  "schedule_request =
     \<lparr> req_method = POST,
       form = [''channel'' \<mapsto> ''email'', ''subject'' \<mapsto> '''', ''body'' \<mapsto> ''Hello'',
               ''start_at'' \<mapsto> ''2030-01-01T09:00''] \<rparr>"

definition scheduled_hello :: ScheduledEmail where
  "scheduled_hello =
     \<lparr> s_id = 1, s_contact_id = 1, s_subject = '''', s_body = ''Hello'',
       start_at = 1893488400000000, end_at = None, recurring = False, s_sent_at = None \<rparr>"

definition daily_report :: ScheduledEmail where
  "daily_report =
     \<lparr> s_id = 1, s_contact_id = 1, s_subject = ''Daily'', s_body = ''Report'',
       start_at = 1893488400000000, end_at = Some (1893488400000000 + hours 36),
       recurring = True, s_sent_at = None \<rparr>"

definition endless_report :: ScheduledEmail where
  "endless_report =
     \<lparr> s_id = 2, s_contact_id = 1, s_subject = ''Daily'', s_body = ''Report'',
       start_at = 1893488400000000, end_at = None, recurring = True, s_sent_at = None \<rparr>"


section \<open>The notification senders\<close>

lemma smtp_port_configured:
  "port_configured env \<Longrightarrow> \<exists>p. smtp_port env = Inr p"
  by (auto simp: port_configured_def smtp_port_def split: option.splits)

lemma send_email_returns:
  assumes "port_configured (environ tr)"
  shows "\<exists>b out. send_email tr a s b' = (Inr b, out)"
proof -
  from smtp_port_configured [OF assms] obtain p where "smtp_port (environ tr) = Inr p" ..
  then show ?thesis
    by (auto simp: send_email_def split: option.splits)
qed

lemma send_sms_returns: "\<exists>b out. send_sms tr a t = (Inr b, out)"
  by (auto simp: send_sms_def split: option.splits)

text \<open>
  Claim C3, as amended.  \<open>send_sms\<close> returns a boolean and raises nothing, for every
  input, every environment and every behaviour of the Twilio library; so does
  \<open>send_email\<close> whenever \<open>SMTP_PORT\<close> is unset or holds an integer literal.  With a
  required setting missing they print a notice and the would-be message and return
  \<open>False\<close>; when the transport raises they print one line with the text of the
  exception, not the message, and return \<open>False\<close>; so does \<open>send_sms\<close>, with a line of
  its own, when the Twilio library cannot be imported.
\<close>

theorem senders_return_boolean:
  "(port_configured (environ tr) \<longrightarrow>
      (\<exists>b out. send_email tr to_address subject body = (Inr b, out))
      \<and> (smtp_unconfigured (environ tr) \<longrightarrow>
           send_email tr to_address subject body =
             (Inr False, [''Email not sent: missing SMTP configuration'',
                          would_be_email to_address subject body])))
   \<and> (\<forall>p e. \<not> smtp_unconfigured (environ tr) \<longrightarrow> smtp_port (environ tr) = Inr p \<longrightarrow>
          smtp tr (email_submission (environ tr) p to_address subject body) = Some e \<longrightarrow>
          send_email tr to_address subject body = (Inr False, [''Email sending failed: '' @ e]))
   \<and> (\<exists>b out. send_sms tr to_number text = (Inr b, out))
   \<and> (twilio_unconfigured (environ tr) \<longrightarrow>
        send_sms tr to_number text =
          (Inr False, [''SMS not sent: missing Twilio configuration'',
                       would_be_sms to_number text]))
   \<and> (\<forall>client e. \<not> twilio_unconfigured (environ tr) \<longrightarrow> twilio tr = Some client \<longrightarrow>
          client \<lparr> account_sid = env_get (environ tr) ''TWILIO_ACCOUNT_SID'' '''',
                   auth_token = env_get (environ tr) ''TWILIO_AUTH_TOKEN'' '''',
                   sms_from = env_get (environ tr) ''TWILIO_PHONE_NUMBER'' '''',
                   sms_to = to_number, sms_body = text \<rparr> = Some e \<longrightarrow>
          send_sms tr to_number text = (Inr False, [''SMS sending failed: '' @ e]))
   \<and> (\<not> twilio_unconfigured (environ tr) \<and> twilio tr = None \<longrightarrow>
        send_sms tr to_number text =
          (Inr False, [''Twilio library not installed. Install via `pip install twilio`'']))"
proof -
  have 1: "(\<exists>b out. send_email tr to_address subject body = (Inr b, out))
      \<and> (smtp_unconfigured (environ tr) \<longrightarrow>
           send_email tr to_address subject body =
             (Inr False, [''Email not sent: missing SMTP configuration'',
                          would_be_email to_address subject body]))"
    if port: "port_configured (environ tr)"
  proof -
    from smtp_port_configured [OF port] obtain p where p: "smtp_port (environ tr) = Inr p" ..
    have "\<exists>b out. send_email tr to_address subject body = (Inr b, out)"
      using port by (rule send_email_returns)
    moreover have "smtp_unconfigured (environ tr) \<longrightarrow>
           send_email tr to_address subject body =
             (Inr False, [''Email not sent: missing SMTP configuration'',
                          would_be_email to_address subject body])"
      using p by (simp add: send_email_def smtp_unconfigured_def)
    ultimately show ?thesis ..
  qed
  have 2: "\<forall>p e. \<not> smtp_unconfigured (environ tr) \<longrightarrow> smtp_port (environ tr) = Inr p \<longrightarrow>
              smtp tr (email_submission (environ tr) p to_address subject body) = Some e \<longrightarrow>
              send_email tr to_address subject body = (Inr False, [''Email sending failed: '' @ e])"
    by (simp add: send_email_def smtp_unconfigured_def)
  have 3: "\<exists>b out. send_sms tr to_number text = (Inr b, out)"
    by (rule send_sms_returns)
  have 4: "twilio_unconfigured (environ tr) \<longrightarrow>
            send_sms tr to_number text =
              (Inr False, [''SMS not sent: missing Twilio configuration'',
                           would_be_sms to_number text])"
    by (simp add: send_sms_def twilio_unconfigured_def)
  have 5: "\<forall>client e. \<not> twilio_unconfigured (environ tr) \<longrightarrow> twilio tr = Some client \<longrightarrow>
              client \<lparr> account_sid = env_get (environ tr) ''TWILIO_ACCOUNT_SID'' '''',
                       auth_token = env_get (environ tr) ''TWILIO_AUTH_TOKEN'' '''',
                       sms_from = env_get (environ tr) ''TWILIO_PHONE_NUMBER'' '''',
                       sms_to = to_number, sms_body = text \<rparr> = Some e \<longrightarrow>
              send_sms tr to_number text = (Inr False, [''SMS sending failed: '' @ e])"
    by (simp add: send_sms_def twilio_unconfigured_def)
  have 6: "\<not> twilio_unconfigured (environ tr) \<and> twilio tr = None \<longrightarrow>
            send_sms tr to_number text =
              (Inr False, [''Twilio library not installed. Install via `pip install twilio`''])"
    by (simp add: send_sms_def twilio_unconfigured_def)
  from 1 2 3 4 5 6 show ?thesis by blast
qed

theorem senders_return_boolean_witness:
  "port_configured (environ no_transports)
   \<and> send_email no_transports ''ann@example.com'' ''Hello'' ''Body'' =
       (Inr False, [''Email not sent: missing SMTP configuration'',
                    would_be_email ''ann@example.com'' ''Hello'' ''Body''])
   \<and> send_sms no_transports ''+15550100'' ''Body'' =
       (Inr False, [''SMS not sent: missing Twilio configuration'',
                    would_be_sms ''+15550100'' ''Body''])
   \<and> send_sms bad_port ''+15550100'' ''Body'' =
       (Inr False, [''SMS not sent: missing Twilio configuration'',
                    would_be_sms ''+15550100'' ''Body''])"
proof -
  have h: "port_configured (environ no_transports)"
    by (simp add: port_configured_def no_transports_def)
  have u: "smtp_unconfigured (environ no_transports)" "twilio_unconfigured (environ no_transports)"
    "twilio_unconfigured (environ bad_port)"
    by (simp_all add: smtp_unconfigured_def twilio_unconfigured_def env_missing_def
        no_transports_def bad_port_def)
  from senders_return_boolean [of no_transports "''ann@example.com''" "''Hello''" "''Body''"
      "''+15550100''" "''Body''"]
    senders_return_boolean [of bad_port "''ann@example.com''" "''Hello''" "''Body''"
      "''+15550100''" "''Body''"] u h
  show ?thesis by blast
qed

text \<open>
  Claim C3 as stated fails.  With SMTP fully configured and the server refusing the
  connection, \<open>send_email\<close> prints the failure line only, not the would-be message; so
  does \<open>send_sms\<close> when the Twilio client raises.  With \<open>SMTP_PORT=abc\<close> the conversion
  of the port in \<open>send_email\<close> raises \<open>ValueError\<close> before anything is checked or
  printed.
\<close>

theorem senders_counterexample:
  "send_email refusing_smtp ''ann@example.com'' ''Hello'' ''Body'' =
     (Inr False, [''Email sending failed: Connection refused''])
   \<and> would_be_email ''ann@example.com'' ''Hello'' ''Body''
       \<notin> set (snd (send_email refusing_smtp ''ann@example.com'' ''Hello'' ''Body''))
   \<and> send_sms refusing_twilio ''+15550100'' ''Body'' =
       (Inr False, [''SMS sending failed: Unable to create record''])
   \<and> would_be_sms ''+15550100'' ''Body''
       \<notin> set (snd (send_sms refusing_twilio ''+15550100'' ''Body''))
   \<and> send_email bad_port ''ann@example.com'' ''Hello'' ''Body'' = (Inl ValueError, [])"
  by (simp add: refusing_smtp_def refusing_twilio_def bad_port_def send_email_def send_sms_def
      smtp_port_def env_missing_def truthy_def would_be_email_def would_be_sms_def py_int_def
      int_space_def parse_unsigned_def is_digit_def max_str_digits_def)

section \<open>Application start and the access gate\<close>

text \<open>
  Claim C9.  At application start a user table without rows receives exactly one user,
  named \<open>admin\<close>, with role \<open>master\<close> and the hash of the fixed password
  \<open>admin123\<close>; a user table with at least one row is left as it is, as is everything
  else.
\<close>

theorem bootstrap_default_master:
  "(users w = [] \<longrightarrow>
      create_app lib now w =
        w\<lparr>users := [\<lparr> u_id = 1, username = ''admin'',
                        password_hash = generate_password_hash lib ''admin123'',
                        role = ''master'', u_created_at = now \<rparr>]\<rparr>)
   \<and> (users w \<noteq> [] \<longrightarrow> create_app lib now w = w)"
  by (simp add: create_app_def next_id_def)

theorem bootstrap_default_master_witness:
  "users fresh_world = []
   \<and> users (create_app example_library 5 fresh_world) =
       [\<lparr> u_id = 1, username = ''admin'', password_hash = ''hash:admin123'',
          role = ''master'', u_created_at = 5 \<rparr>]
   \<and> users example_world \<noteq> []
   \<and> create_app example_library 5 example_world = example_world"
proof -
  have a: "users fresh_world = []" by (simp add: fresh_world_def)
  have b: "users example_world \<noteq> []" by (simp add: example_world_def)
  from bootstrap_default_master [of fresh_world example_library 5]
    bootstrap_default_master [of example_world example_library 5] a b
  show ?thesis by (simp add: example_library_def)
qed

lemma lower_role_names [simp]:
  "lower ''master'' = ''master''" "lower ''management'' = ''management''"
  by (simp_all add: lower_def lower_char_def)

lemma role_required_denied:
  assumes "\<not> may_edit_contacts u"
  shows "role_required [''master'', ''management''] (Some u) view w =
           (Inr (Redirect EP_index),
            [(''You do not have permission to access this page.'', ''danger'')], w)"
  using assms by (simp add: role_required_def may_edit_contacts_def)

lemma role_required_granted:
  assumes "may_edit_contacts u"
  shows "role_required [''master'', ''management''] (Some u) view w = view w"
  using assms by (auto simp: role_required_def may_edit_contacts_def)

text \<open>
  Claim C8.  A logged-in user whose role, in lower case, is neither \<open>master\<close> nor
  \<open>management\<close> gets from \<open>/contact/new\<close>, whatever the request, the permission
  flash and a redirect to \<open>index\<close>, which itself redirects to the contact list; the
  state, and so the Contact table, is unchanged.
\<close>

theorem create_contact_forbidden_role:
  assumes "\<not> may_edit_contacts u"
  shows "create_contact lib now (Some u) req w =
           (Inr (Redirect EP_index),
            [(''You do not have permission to access this page.'', ''danger'')], w)
         \<and> index = Redirect EP_list_contacts"
  using assms by (simp add: create_contact_def login_required_def role_required_denied index_def)

theorem create_contact_forbidden_role_witness:
  "\<not> may_edit_contacts eve
   \<and> create_contact example_library 5 (Some eve) new_contact_request example_world =
       (Inr (Redirect EP_index),
        [(''You do not have permission to access this page.'', ''danger'')], example_world)"
proof -
  have h: "\<not> may_edit_contacts eve"
    by (simp add: may_edit_contacts_def eve_def lower_def lower_char_def)
  from create_contact_forbidden_role [OF h, of example_library 5 new_contact_request example_world] h
  show ?thesis by simp
qed

section \<open>Creating and editing contacts\<close>

lemma find_email_member:
  "c \<in> set cs \<Longrightarrow> find (\<lambda>d. email d = email c) cs \<noteq> None"
  by (auto simp: find_None_iff)

lemma create_contact_view_duplicate:
  assumes "req_method req = POST" and "c \<in> set (contacts w)"
    and "email c = strip (form_get (form req) ''email'' '''')"
  shows "create_contact_view lib now req w =
           (Inr (Render ''contact_form.html''),
            [if missing_required req
             then (''First name, last name and email are required.'', ''danger'')
             else (''A contact with that email already exists.'', ''warning'')], w)"
proof -
  from assms(2) have "find (\<lambda>d. email d = email c) (contacts w) \<noteq> None"
    by (rule find_email_member)
  with assms(1,3) show ?thesis
    by (auto simp: create_contact_view_def Let_def truthy_def missing_required_def)
qed

text \<open>
  Claim C4.  A POST to \<open>/contact/new\<close> whose email field, trimmed as the handler trims
  it, is the email of an existing contact leaves the state unchanged, so no Contact is
  added; for a user who passes the access gate the answer is the form rendered again
  with one flash message.
\<close>

theorem create_contact_duplicate_email:
  assumes "req_method req = POST" and "c \<in> set (contacts w)"
    and "email c = strip (form_get (form req) ''email'' '''')"
  shows "snd (snd (create_contact lib now g req w)) = w
       \<and> (\<forall>u. g = Some u \<and> may_edit_contacts u \<longrightarrow>
            create_contact lib now g req w =
              (Inr (Render ''contact_form.html''),
               [if missing_required req
                then (''First name, last name and email are required.'', ''danger'')
                else (''A contact with that email already exists.'', ''warning'')], w))"
proof -
  note v = create_contact_view_duplicate [OF assms, of lib now]
  have 1: "snd (snd (create_contact lib now g req w)) = w"
    by (simp add: create_contact_def login_required_def role_required_def v split: option.splits)
  have 2: "create_contact lib now (Some u) req w = create_contact_view lib now req w"
    if "may_edit_contacts u" for u
    using that by (simp add: create_contact_def login_required_def role_required_granted)
  from 1 2 v show ?thesis by auto
qed

theorem create_contact_duplicate_email_witness:
  "req_method duplicate_contact_request = POST \<and> ann \<in> set (contacts example_world)
   \<and> email ann = strip (form_get (form duplicate_contact_request) ''email'' '''')
   \<and> may_edit_contacts admin
   \<and> create_contact example_library 5 (Some admin) duplicate_contact_request example_world =
       (Inr (Render ''contact_form.html''),
        [(''A contact with that email already exists.'', ''warning'')], example_world)"
proof -
  have a: "req_method duplicate_contact_request = POST"
    by (simp add: duplicate_contact_request_def)
  have b: "ann \<in> set (contacts example_world)"
    by (simp add: example_world_def)
  have c: "email ann = strip (form_get (form duplicate_contact_request) ''email'' '''')"
    by (simp add: ann_def duplicate_contact_request_def form_get_def strip_def py_isspace_def)
  have d: "may_edit_contacts admin"
    by (simp add: may_edit_contacts_def admin_def)
  have e: "\<not> missing_required duplicate_contact_request"
    by (simp add: missing_required_def duplicate_contact_request_def form_get_def strip_def
        py_isspace_def)
  from create_contact_duplicate_email [OF a b c, of example_library 5 "Some admin"] a b c d e
  show ?thesis by simp
qed

lemma get_contact_id: "get_contact cs i = Some c \<Longrightarrow> c_id c = i"
  by (auto simp: get_contact_def dest: find_Some_iff [THEN iffD1])

lemma float_or_prior_unparseable:
  "unparseable_float lib f k \<Longrightarrow> float_or_prior lib f k prior = prior"
  by (auto simp: unparseable_float_def float_or_prior_def split: option.splits)


lemma edit_contact_view_post:
  assumes "get_contact (contacts w) i = Some c" and "req_method req = POST"
  shows "edit_contact_view lib now i req w =
           (if \<not> sqlite_integer (int_or_prior (form req) ''rating'' (rating c))
            then (Inl OverflowError, [], w)
            else if email_taken (contacts w) i (strip (form_get (form req) ''email'' ''''))
            then (Inl IntegrityError, [], w)
            else (Inr (Redirect (EP_view_contact i)),
                  [(''Contact updated successfully!'', ''success'')],
                  generate_contact_summary now (edited lib req c)
                    (w\<lparr>contacts := map (\<lambda>d. if c_id d = i then edited lib req c else d)
                                      (contacts w)\<rparr>)))"
  using assms get_contact_id [OF assms(1)] unfolding edited_def
  by (simp add: edit_contact_view_def update_contact_def email_taken_def)

text \<open>
  Claim C5 at its failing input: contact 2 is edited to carry the email of contact 1.
  \<open>edit_contact\<close> makes no check of its own, the commit raises \<open>IntegrityError\<close> and
  the exception escapes the handler; \<open>create_contact\<close>, given the same form, finds the
  email and answers with a flash.
\<close>

theorem edit_contact_no_duplicate_check:
  "edit_contact example_library 5 (Some admin) 2 taken_email_request example_world =
     (Inl IntegrityError, [], example_world)
   \<and> create_contact example_library 5 (Some admin) taken_email_request example_world =
       (Inr (Render ''contact_form.html''),
        [(''A contact with that email already exists.'', ''warning'')], example_world)"
proof -
  have a: "may_edit_contacts admin"
    by (simp add: may_edit_contacts_def admin_def)
  have b: "get_contact (contacts example_world) 2 = Some bob"
    by (simp add: get_contact_def example_world_def ann_def bob_def)
  have c: "req_method taken_email_request = POST"
    by (simp add: taken_email_request_def)
  have d: "strip (form_get (form taken_email_request) ''email'' '''') = ''ann@example.com''"
    by (simp add: taken_email_request_def form_get_def strip_def py_isspace_def)
  have e: "email_taken (contacts example_world) 2 ''ann@example.com''"
    by (simp add: email_taken_def example_world_def ann_def bob_def)
  have r: "sqlite_integer (int_or_prior (form taken_email_request) ''rating'' (rating bob))"
    by (simp add: int_or_prior_def taken_email_request_def bob_def sqlite_integer_def)
  have 1: "edit_contact example_library 5 (Some admin) 2 taken_email_request example_world =
             (Inl IntegrityError, [], example_world)"
    using a edit_contact_view_post [OF b c, of example_library 5] d e r
    by (simp add: edit_contact_def login_required_def role_required_granted)
  have f: "ann \<in> set (contacts example_world)"
    by (simp add: example_world_def)
  have g: "email ann = strip (form_get (form taken_email_request) ''email'' '''')"
    using d by (simp add: ann_def)
  have h: "\<not> missing_required taken_email_request"
    by (simp add: missing_required_def taken_email_request_def form_get_def strip_def
        py_isspace_def)
  have 2: "create_contact example_library 5 (Some admin) taken_email_request example_world =
             (Inr (Render ''contact_form.html''),
              [(''A contact with that email already exists.'', ''warning'')], example_world)"
    using a create_contact_view_duplicate [OF c f g, of example_library 5] h
    by (simp add: create_contact_def login_required_def role_required_granted)
  from 1 2 show ?thesis ..
qed


section \<open>Sending messages\<close>

lemma send_message_view_rejects:
  assumes "get_contact (contacts w) i = Some c" and "req_method req = POST"
    and "form req ''channel'' = Some ''email''"
    and "strip (form_get (form req) ''subject'' '''') = []"
    and "form_get (form req) ''start_at'' '''' = [] \<or> form req ''send_test'' = Some ''1''
         \<or> strip (form_get (form req) ''body'' '''') = []"
  shows "\<exists>msg. send_message_view lib tr now i req w =
           (Inr (Render ''message_form.html''), [msg], w)"
  using assms by (auto simp: send_message_view_def Let_def truthy_def)

lemma invoke_calls:
  "\<exists>r w'. invoke tr call w = (r, w') \<and> calls w' = calls w @ [call]"
  by (simp add: invoke_def split: prod.splits)

lemma send_message_view_sms:
  assumes "get_contact (contacts w) i = Some c" and "req_method req = POST"
    and "form req ''channel'' = Some ''sms''"
  shows "calls (snd (snd (send_message_view lib tr now i req w))) =
           calls w @ (if strip (form_get (form req) ''body'' '''') = [] then []
                      else [SendSms (phone_or_empty c) (strip (form_get (form req) ''body'' ''''))])"
proof (cases "strip (form_get (form req) ''body'' '''') = []")
  case True
  with assms show ?thesis
    by (simp add: send_message_view_def Let_def truthy_def)
next
  case False
  obtain r w' where inv:
    "invoke tr (SendSms (phone_or_empty c) (strip (form_get (form req) ''body'' ''''))) w = (r, w')"
    "calls w' = calls w @ [SendSms (phone_or_empty c) (strip (form_get (form req) ''body'' ''''))]"
    using invoke_calls by blast
  with assms False show ?thesis
    by (auto simp: send_message_view_def Let_def truthy_def split: sum.splits)
qed

text \<open>
  Claim C7, as amended.  For a logged-in user and an existing contact, a POST to
  \<open>/message/new/<id>\<close> with channel \<open>email\<close> and an empty subject is rejected with one
  flash and the form rendered again, the state unchanged (no sender call, no Message),
  provided the request is not a scheduling request: \<open>start_at\<close> is empty, or
  \<open>send_test\<close> is set, or the body is empty.  With channel \<open>sms\<close> the only sender call
  the request makes is \<open>send_sms\<close> to the contact's phone (the empty string when the
  contact has none), made exactly when the body is not empty.
\<close>

theorem send_message_subject_and_recipient:
  assumes "get_contact (contacts w) i = Some c" and "req_method req = POST"
  shows "(form req ''channel'' = Some ''email''
          \<and> strip (form_get (form req) ''subject'' '''') = []
          \<and> (form_get (form req) ''start_at'' '''' = [] \<or> form req ''send_test'' = Some ''1''
               \<or> strip (form_get (form req) ''body'' '''') = []) \<longrightarrow>
          (\<exists>msg. send_message_route lib tr now (Some u) i req w =
             (Inr (Render ''message_form.html''), [msg], w)))
       \<and> (form req ''channel'' = Some ''sms'' \<longrightarrow>
            calls (snd (snd (send_message_route lib tr now (Some u) i req w))) =
              calls w @ (if strip (form_get (form req) ''body'' '''') = [] then []
                         else [SendSms (phone_or_empty c)
                                 (strip (form_get (form req) ''body'' ''''))]))"
proof -
  have gate: "send_message_route lib tr now (Some u) i req w =
                send_message_view lib tr now i req w"
    by (simp add: send_message_route_def login_required_def)
  show ?thesis
    unfolding gate
    using send_message_view_rejects [OF assms, of lib tr now]
      send_message_view_sms [OF assms, of lib tr now]
    by blast
qed

theorem send_message_subject_and_recipient_witness:
  "get_contact (contacts example_world) 1 = Some ann \<and> req_method no_subject_request = POST
   \<and> form no_subject_request ''channel'' = Some ''email''
   \<and> strip (form_get (form no_subject_request) ''subject'' '''') = []
   \<and> form_get (form no_subject_request) ''start_at'' '''' = []
   \<and> (\<exists>msg. send_message_route example_library no_transports 5 (Some eve) 1
                no_subject_request example_world =
              (Inr (Render ''message_form.html''), [msg], example_world))
   \<and> req_method sms_request = POST \<and> form sms_request ''channel'' = Some ''sms''
   \<and> calls (snd (snd (send_message_route example_library no_transports 5 (Some eve) 1
                         sms_request example_world))) =
       [SendSms ''+15550100'' ''Hello'']"
proof -
  have a: "get_contact (contacts example_world) 1 = Some ann"
    by (simp add: get_contact_def example_world_def ann_def)
  have b: "req_method no_subject_request = POST" "req_method sms_request = POST"
    by (simp_all add: no_subject_request_def sms_request_def)
  have c: "form no_subject_request ''channel'' = Some ''email''"
    "strip (form_get (form no_subject_request) ''subject'' '''') = []"
    "form_get (form no_subject_request) ''start_at'' '''' = []"
    by (simp_all add: no_subject_request_def form_get_def strip_def py_isspace_def)
  have d: "form sms_request ''channel'' = Some ''sms''"
    "strip (form_get (form sms_request) ''body'' '''') = ''Hello''"
    by (simp_all add: sms_request_def form_get_def strip_def py_isspace_def)
  have e: "phone_or_empty ann = ''+15550100''" "calls example_world = []"
    by (simp_all add: phone_or_empty_def ann_def example_world_def)
  from send_message_subject_and_recipient [OF a b(1), of example_library no_transports 5 eve]
    send_message_subject_and_recipient [OF a b(2), of example_library no_transports 5 eve]
    a b c d e
  show ?thesis by simp
qed

text \<open>
  Claim C7 as stated fails for a scheduling request: with channel \<open>email\<close>, an empty
  subject and a start time, the request is accepted, a ScheduledEmail with the empty
  subject is stored and its timer armed; when that timer runs, \<open>send_email\<close> is called
  with the empty subject.
\<close>

theorem send_message_empty_subject_scheduled:
  "send_message_route example_library no_transports 5 (Some eve) 1 schedule_request example_world =
     (Inr (Redirect (EP_view_contact 1)), [(''Email scheduled successfully.'', ''success'')],
      example_world\<lparr>scheduled_emails := [scheduled_hello],
                    timers := [(1893488399999995, scheduled_hello)]\<rparr>)
   \<and> snd (snd (send_and_reschedule no_transports 1893488400000000 1893488400000000
                  (contacts example_world) scheduled_hello)) =
       [SendEmail ''ann@example.com'' '''' ''Hello'']"
  by (simp add: send_message_route_def login_required_def send_message_view_def Let_def
      truthy_def get_contact_def example_world_def ann_def bob_def schedule_request_def
      form_get_def strip_def py_isspace_def example_library_def scheduled_hello_def
      next_id_def schedule_email_job_def send_and_reschedule_def send_email_def
      smtp_port_def no_transports_def env_missing_def)

section \<open>The scheduler\<close>

text \<open>
  A recurring entry with no \<open>end_at\<close> is advanced by a day and re-armed by the
  rescheduling step, and so by every run of the callback in which \<open>send_email\<close>
  returns; under the exact timer every run that is followed then takes place.
\<close>

lemma reschedule_no_end:
  assumes "recurring s" and "end_at s = None"
  shows "reschedule n s = (s\<lparr>start_at := start_at s + days 1\<rparr>,
                            Some (max (start_at s + days 1 - n) 0))"
  using assms by (simp add: reschedule_def Let_def)

lemma fire_recurring_no_end:
  assumes "port_configured (environ tr)" and "recurring s" and "end_at s = None"
  shows "\<exists>s' out cl. send_and_reschedule tr n n' cs s =
            (Inr (s', Some (max (start_at s + days 1 - n') 0)), out, cl)
          \<and> start_at s' = start_at s + days 1 \<and> recurring s' \<and> end_at s' = None"
proof (cases "get_contact cs (s_contact_id s)")
  case None
  with assms(2,3) show ?thesis
    by (simp add: send_and_reschedule_def reschedule_no_end)
next
  case (Some c)
  from send_email_returns [OF assms(1)] obtain b out
    where "send_email tr (email c) (s_subject s) (s_body s) = (Inr b, out)" by blast
  with Some assms(2,3) show ?thesis
    by (simp add: send_and_reschedule_def reschedule_no_end)
qed

lemma run_timer_recurring_no_end:
  assumes "port_configured (environ tr)"
  shows "recurring s \<Longrightarrow> end_at s = None \<Longrightarrow>
         length (run_timer tr t s css) = length css
         \<and> (\<forall>k<length css. \<exists>s' d out cl.
               snd (run_timer tr t s css ! k) = (Inr (s', Some d), out, cl)
               \<and> start_at s' = start_at s + days (int k + 1)
               \<and> recurring s' \<and> end_at s' = None)"
proof (induction css arbitrary: t s)
  case Nil
  then show ?case by simp
next
  case (Cons cs css)
  from fire_recurring_no_end [OF assms Cons.prems, of t t cs]
  obtain s' out cl where
    fire: "send_and_reschedule tr t t cs s =
             (Inr (s', Some (max (start_at s + days 1 - t) 0)), out, cl)"
    and s': "start_at s' = start_at s + days 1" "recurring s'" "end_at s' = None"
    by blast
  let ?t' = "t + max (start_at s + days 1 - t) 0"
  have unfold: "run_timer tr t s (cs # css) =
      (t, Inr (s', Some (max (start_at s + days 1 - t) 0)), out, cl) # run_timer tr ?t' s' css"
    by (simp add: fire)
  note IH = Cons.IH [OF s'(2,3), of ?t']
  have len: "length (run_timer tr t s (cs # css)) = length (cs # css)"
    unfolding unfold using IH by simp
  have nth: "\<exists>s'' d out' cl'.
               snd (run_timer tr t s (cs # css) ! k) = (Inr (s'', Some d), out', cl')
               \<and> start_at s'' = start_at s + days (int k + 1)
               \<and> recurring s'' \<and> end_at s'' = None"
    if k: "k < length (cs # css)" for k
  proof (cases k)
    case 0
    with s' show ?thesis unfolding unfold by simp
  next
    case (Suc j)
    with k have "j < length css" by simp
    with IH obtain s'' d out' cl' where
      "snd (run_timer tr ?t' s' css ! j) = (Inr (s'', Some d), out', cl')"
      "start_at s'' = start_at s' + days (int j + 1)" "recurring s''" "end_at s'' = None"
      by blast
    moreover have "start_at s' + days (int j + 1) = start_at s + days (int (Suc j) + 1)"
      by (simp add: s'(1) days_def algebra_simps)
    ultimately show ?thesis
      unfolding unfold Suc by simp
  qed
  from len nth show ?case by blast
qed

text \<open>
  Claim C2 at its failing input: a recurring entry with no \<open>end_at\<close>, its contact
  present, and \<open>SMTP_PORT=abc\<close>.  The first run of the callback calls \<open>send_email\<close>,
  the conversion of the port raises \<open>ValueError\<close>, and the callback ends there: nothing
  is recorded, \<open>start_at\<close> is not advanced and no timer is armed, so the entry is never
  run again, however long it is followed.
\<close>

theorem recurring_without_end_stops_on_sender_error:
  "recurring endless_report \<and> end_at endless_report = None
   \<and> scheduler bad_port 5 endless_report
         [contacts example_world, contacts example_world, contacts example_world] =
       [(1893488400000000, Inl ValueError, [],
         [SendEmail ''ann@example.com'' ''Daily'' ''Report''])]"
  by (simp add: scheduler_def schedule_email_job_def send_and_reschedule_def get_contact_def
      send_email_def smtp_port_def bad_port_def endless_report_def example_world_def ann_def
      bob_def py_int_def int_space_def parse_unsigned_def is_digit_def max_str_digits_def
      Let_def)

lemma fire_with_contact:
  assumes "get_contact cs (s_contact_id s) = Some c"
    and "send_email tr (email c) (s_subject s) (s_body s) = (Inr b, out)"
  shows "send_and_reschedule tr n n' cs s =
           (Inr (reschedule n' (s\<lparr>s_sent_at := Some n\<rparr>)), out,
            [SendEmail (email c) (s_subject s) (s_body s)])"
  using assms by (simp add: send_and_reschedule_def)




lemma reschedule_first_of_two:
  assumes "recurring s" and "end_at s = Some (start_at s + hours 36)"
  shows "reschedule (start_at s) (s\<lparr>s_sent_at := Some (start_at s)\<rparr>) =
           (s\<lparr>s_sent_at := Some (start_at s), start_at := start_at s + hours 24\<rparr>,
            Some (hours 24))"
  using assms by (simp add: reschedule_def Let_def days_def hours_def)

lemma reschedule_second_of_two:
  assumes "recurring s" and "end_at s = Some (T + hours 36)" and "start_at s = T + hours 24"
  shows "reschedule n (s\<lparr>s_sent_at := x\<rparr>) = (s\<lparr>s_sent_at := x\<rparr>, None)"
  using assms by (simp add: reschedule_def Let_def days_def hours_def)

text \<open>
  Claim C1, as amended.  Let the entry be recurring with \<open>start_at = T\<close> and \<open>end_at = T + 36h\<close>, the
  job scheduled no later than \<open>T\<close>, the contact present at both runs, and \<open>SMTP_PORT\<close>
  unset or an integer literal, so that the sender returns.  Under the exact timer the
  callback runs at \<open>T\<close> and at \<open>T + 24h\<close> and never again, however long the entry is
  followed.  Each run calls \<open>send_email\<close> for the contact and sets \<open>sent_at\<close> to its
  time; the first advances \<open>start_at\<close> to \<open>T + 24h\<close> and arms a timer of 24 hours, the
  second arms none.
\<close>

theorem recurring_36_hours_fires_twice:
  assumes "recurring s" and "end_at s = Some (start_at s + hours 36)" and "now \<le> start_at s"
    and "port_configured (environ tr)"
    and "get_contact cs1 (s_contact_id s) = Some c1"
    and "get_contact cs2 (s_contact_id s) = Some c2"
  shows "\<exists>out1 out2.
           scheduler tr now s (cs1 # cs2 # rest) =
             [(start_at s,
               Inr (s\<lparr>s_sent_at := Some (start_at s), start_at := start_at s + hours 24\<rparr>,
                    Some (hours 24)),
               out1, [SendEmail (email c1) (s_subject s) (s_body s)]),
              (start_at s + hours 24,
               Inr (s\<lparr>s_sent_at := Some (start_at s + hours 24),
                      start_at := start_at s + hours 24\<rparr>, None),
               out2, [SendEmail (email c2) (s_subject s) (s_body s)])]
         \<and> start_at s + hours 48 \<notin> set (map fst (scheduler tr now s (cs1 # cs2 # rest)))"
proof -
  let ?T = "start_at s"
  let ?s1 = "s\<lparr>s_sent_at := Some ?T, start_at := ?T + hours 24\<rparr>"
  from send_email_returns [OF assms(4)] obtain b1 out1
    where e1: "send_email tr (email c1) (s_subject s) (s_body s) = (Inr b1, out1)" by blast
  from send_email_returns [OF assms(4)] obtain b2 out2
    where e2: "send_email tr (email c2) (s_subject s) (s_body s) = (Inr b2, out2)" by blast
  have start: "now + schedule_email_job now s = ?T"
    using assms(3) by (simp add: schedule_email_job_def Let_def)
  have f1: "send_and_reschedule tr ?T ?T cs1 s =
              (Inr (?s1, Some (hours 24)), out1, [SendEmail (email c1) (s_subject s) (s_body s)])"
    using fire_with_contact [OF assms(5) e1, of ?T ?T]
    by (simp add: reschedule_first_of_two [OF assms(1,2)])
  have r2: "reschedule (?T + hours 24) (?s1\<lparr>s_sent_at := Some (?T + hours 24)\<rparr>) =
              (?s1\<lparr>s_sent_at := Some (?T + hours 24)\<rparr>, None)"
    by (rule reschedule_second_of_two [where T = ?T]) (simp_all add: assms(1,2))
  have f2: "send_and_reschedule tr (?T + hours 24) (?T + hours 24) cs2 ?s1 =
              (Inr (s\<lparr>s_sent_at := Some (?T + hours 24), start_at := ?T + hours 24\<rparr>, None),
               out2, [SendEmail (email c2) (s_subject s) (s_body s)])"
    using fire_with_contact [of cs2 ?s1 c2 tr b2 out2 "?T + hours 24" "?T + hours 24"]
      assms(6) e2 r2
    by simp
  have run: "scheduler tr now s (cs1 # cs2 # rest) =
             [(?T, Inr (?s1, Some (hours 24)), out1,
               [SendEmail (email c1) (s_subject s) (s_body s)]),
              (?T + hours 24,
               Inr (s\<lparr>s_sent_at := Some (?T + hours 24), start_at := ?T + hours 24\<rparr>, None),
               out2, [SendEmail (email c2) (s_subject s) (s_body s)])]"
    unfolding scheduler_def start by (simp add: f1 f2)
  have "?T + hours 48 \<notin> set (map fst (scheduler tr now s (cs1 # cs2 # rest)))"
    unfolding run by (simp add: hours_def)
  with run show ?thesis by blast
qed

theorem recurring_36_hours_fires_twice_witness:
  "recurring daily_report \<and> end_at daily_report = Some (start_at daily_report + hours 36)
   \<and> 5 \<le> start_at daily_report \<and> port_configured (environ working_smtp)
   \<and> get_contact (contacts example_world) (s_contact_id daily_report) = Some ann
   \<and> map fst (scheduler working_smtp 5 daily_report
                 [contacts example_world, contacts example_world, contacts example_world,
                  contacts example_world]) =
       [1893488400000000, 1893488400000000 + hours 24]"
proof -
  have a: "recurring daily_report"
    "end_at daily_report = Some (start_at daily_report + hours 36)"
    "5 \<le> start_at daily_report"
    by (simp_all add: daily_report_def)
  have b: "port_configured (environ working_smtp)"
    by (simp add: port_configured_def working_smtp_def)
  have c: "get_contact (contacts example_world) (s_contact_id daily_report) = Some ann"
    by (simp add: get_contact_def example_world_def ann_def daily_report_def)
  have d: "start_at daily_report = 1893488400000000"
    by (simp add: daily_report_def)
  from recurring_36_hours_fires_twice [OF a b c c,
      of "[contacts example_world, contacts example_world]"]
  obtain out1 out2 where
    "scheduler working_smtp 5 daily_report
       [contacts example_world, contacts example_world, contacts example_world,
        contacts example_world] =
     [(start_at daily_report,
       Inr (daily_report\<lparr>s_sent_at := Some (start_at daily_report),
                          start_at := start_at daily_report + hours 24\<rparr>, Some (hours 24)),
       out1, [SendEmail (email ann) (s_subject daily_report) (s_body daily_report)]),
      (start_at daily_report + hours 24,
       Inr (daily_report\<lparr>s_sent_at := Some (start_at daily_report + hours 24),
                          start_at := start_at daily_report + hours 24\<rparr>, None),
       out2, [SendEmail (email ann) (s_subject daily_report) (s_body daily_report)])]"
    by blast
  with a b c d show ?thesis by simp
qed

text \<open>
  Claim C1 as stated fails in three ways.  With the contact gone, the callback runs at
  \<open>T\<close> and at \<open>T + 24h\<close> but calls no sender and records no \<open>sent_at\<close>.  With
  \<open>SMTP_PORT=abc\<close> the run at \<open>T\<close> ends in the \<open>ValueError\<close> of \<open>send_email\<close>: no
  \<open>sent_at\<close> is recorded and nothing runs at \<open>T + 24h\<close>.  With the job scheduled an hour
  after \<open>T\<close>, the first run is at that time, not at \<open>T\<close>.
\<close>

theorem recurring_36_hours_counterexample:
  "scheduler working_smtp 5 daily_report [[bob], [bob], [bob]] =
     [(1893488400000000,
       Inr (daily_report\<lparr>start_at := 1893488400000000 + hours 24\<rparr>, Some (hours 24)),
       [], []),
      (1893488400000000 + hours 24,
       Inr (daily_report\<lparr>start_at := 1893488400000000 + hours 24\<rparr>, None), [], [])]
   \<and> scheduler bad_port 5 daily_report
         [contacts example_world, contacts example_world, contacts example_world] =
       [(1893488400000000, Inl ValueError, [],
         [SendEmail ''ann@example.com'' ''Daily'' ''Report''])]
   \<and> map fst (scheduler working_smtp (1893488400000000 + hours 1) daily_report
                 [contacts example_world, contacts example_world, contacts example_world]) =
       [1893488400000000 + hours 1, 1893488400000000 + hours 24]"
  by (simp add: scheduler_def schedule_email_job_def send_and_reschedule_def reschedule_def
      get_contact_def send_email_def smtp_port_def env_missing_def truthy_def
      email_submission_def working_smtp_def bad_port_def daily_report_def example_world_def
      ann_def bob_def py_int_def int_space_def parse_unsigned_def is_digit_def
      max_str_digits_def days_def hours_def Let_def)

end
